theory Spec2Isabelle
  imports Main "HOL-Library.Sublist"
begin

section \<open>Strings\<close>

text \<open>
  JavaScript strings are modelled as \<^typ>\<open>string\<close>: a list of characters with code
  points below 256. The character classes below are the restrictions of the JavaScript
  ones to that range.
\<close>

definition LF :: char where
  "LF = CHR 0x0A"

definition CR :: char where
  "CR = CHR 0x0D"

definition isSpace :: "char \<Rightarrow> bool" where
  \<comment> \<open>the class \<open>\s\<close>, which is also what \<open>trim\<close> strips: TAB, LF, VT, FF, CR, space, NBSP\<close>
  "isSpace c = (let n = (of_char c :: nat) in (9 \<le> n \<and> n \<le> 13) \<or> n = 32 \<or> n = 160)"

definition isLineTerminator :: "char \<Rightarrow> bool" where
  "isLineTerminator c = (c = LF \<or> c = CR)"

definition isDigit :: "char \<Rightarrow> bool" where
  \<comment> \<open>the class \<open>\d\<close>\<close>
  "isDigit c = (let n = (of_char c :: nat) in 48 \<le> n \<and> n \<le> 57)"


definition trim :: "string \<Rightarrow> string" where
  "trim s = rev (dropWhile isSpace (rev (dropWhile isSpace s)))"

definition toLowerChar :: "char \<Rightarrow> char" where
  "toLowerChar c = (let n = (of_char c :: nat) in
     if (65 \<le> n \<and> n \<le> 90) \<or> (192 \<le> n \<and> n \<le> 222 \<and> n \<noteq> 215)
     then char_of (n + 32) else c)"

definition toLowerCase :: "string \<Rightarrow> string" where
  "toLowerCase s = map toLowerChar s"

definition orEmpty :: "string option \<Rightarrow> string" where
  \<comment> \<open>\<open>x || ''\<close> on an optional string\<close>
  "orEmpty x = (case x of None \<Rightarrow> [] | Some s \<Rightarrow> s)"

definition digitChar :: "nat \<Rightarrow> char" where
  "digitChar n = ''0123456789'' ! n"

fun showNat :: "nat \<Rightarrow> string" where
  "showNat n = (if n < 10 then [digitChar n] else showNat (n div 10) @ [digitChar (n mod 10)])"

declare showNat.simps [simp del]

definition showInt :: "int \<Rightarrow> string" where
  \<comment> \<open>\<open>String(n)\<close> on an integer\<close>
  "showInt i = (if i < 0 then CHR ''-'' # showNat (nat (- i)) else showNat (nat i))"

definition zeroPad :: "nat \<Rightarrow> nat \<Rightarrow> string" where
  \<comment> \<open>\<open>String(n).padStart(len, '0')\<close>\<close>
  "zeroPad n len = (let s = showNat n in replicate (len - length s) CHR ''0'' @ s)"

definition equalIgnoringCase :: "string \<Rightarrow> string \<Rightarrow> bool" where
  \<comment> \<open>equality up to letter case, the reading of "case-insensitively" used in the statements\<close>
  "equalIgnoringCase a b = (toLowerCase a = toLowerCase b)"


section \<open>Outcome classifier\<close>

datatype OutcomeCategory = Win | Loss | Draw | Unknown

definition outcomeCategory :: "string option \<Rightarrow> OutcomeCategory" where
  "outcomeCategory result = (let r = toLowerCase (orEmpty result) in
     if r = ''win'' then Win
     else if r = ''stalemate'' \<or> r = ''agreed'' \<or> r = ''repetition'' \<or> r = ''insufficient''
             \<or> r = ''50move'' \<or> r = ''timevsinsufficient'' \<or> r = ''draw'' then Draw
     else if r = ''checkmated'' \<or> r = ''resigned'' \<or> r = ''timeout'' \<or> r = ''abandoned''
             \<or> r = ''lose'' then Loss
     else Unknown)"

definition pastTenseLabel :: "OutcomeCategory \<Rightarrow> string" where
  "pastTenseLabel cat = (if cat = Win then ''Won'' else if cat = Loss then ''Lost''
     else if cat = Draw then ''Drew'' else [])"

definition drawCodes :: "string list" where
  \<comment> \<open>the result codes the specification lists for Draw\<close>
  "drawCodes = [''stalemate'', ''agreed'', ''repetition'', ''insufficient'', ''50move'',
     ''timevsinsufficient'', ''draw'']"

definition lossCodes :: "string list" where
  \<comment> \<open>the result codes the specification lists for Loss\<close>
  "lossCodes = [''checkmated'', ''resigned'', ''timeout'', ''abandoned'', ''lose'']"


section \<open>Pattern formatter\<close>

record DateFields =
  getFullYear :: int
  getMonth :: nat
  getDate :: nat
  getHours :: nat
  getMinutes :: nat
  getSeconds :: nat

definition tokens :: "string list" where
  \<comment> \<open>the alternatives of \<open>tokenRe\<close>, in the order the expression tries them\<close>
  "tokens = [''yyyy'', ''MM'', ''dd'', ''HH'', ''hh'', ''mm'', ''ss'', ''a'']"

definition h12 :: "DateFields \<Rightarrow> nat" where
  "h12 d = (if getHours d mod 12 = 0 then 12 else getHours d mod 12)"

definition tokenMap :: "DateFields \<Rightarrow> (string \<times> string) list" where
  "tokenMap d =
     [(''yyyy'', showInt (getFullYear d)),
      (''MM'', zeroPad (getMonth d + 1) 2),
      (''dd'', zeroPad (getDate d) 2),
      (''HH'', zeroPad (getHours d) 2),
      (''hh'', zeroPad (h12 d) 2),
      (''mm'', zeroPad (getMinutes d) 2),
      (''ss'', zeroPad (getSeconds d) 2),
      (''a'', if getHours d < 12 then ''AM'' else ''PM'')]"

definition tokenValue :: "DateFields \<Rightarrow> string \<Rightarrow> string" where
  \<comment> \<open>the replacement callback: \<open>map[tok] ?? tok\<close>\<close>
  "tokenValue d tok = (case map_of (tokenMap d) tok of Some v \<Rightarrow> v | None \<Rightarrow> tok)"

definition tokenAt :: "string \<Rightarrow> string option" where
  \<comment> \<open>the token the expression matches at the head of the string, if any\<close>
  "tokenAt s = find (\<lambda>t. prefix t s) tokens"

fun replaceTokens :: "DateFields \<Rightarrow> string \<Rightarrow> string" where
  "replaceTokens d [] = []"
| "replaceTokens d (c # cs) =
     (case tokenAt (c # cs) of
        Some tok \<Rightarrow> tokenValue d tok @ replaceTokens d (drop (length tok - 1) cs)
      | None \<Rightarrow> c # replaceTokens d cs)"

definition formatWithPattern :: "DateFields \<Rightarrow> string \<Rightarrow> string" where
  "formatWithPattern d pattern =
     (let fmt = (if pattern = [] then ''yyyy-MM-dd HH:mm'' else pattern)
      in replaceTokens d fmt)"



section \<open>Notation move counter\<close>

fun consHead :: "char \<Rightarrow> string list \<Rightarrow> string list" where
  "consHead c [] = [[c]]"
| "consHead c (p # ps) = (c # p) # ps"

fun splitBlankLines :: "string \<Rightarrow> string list" where
  \<comment> \<open>\<open>split(/\n\n/)\<close>\<close>
  "splitBlankLines [] = [[]]"
| "splitBlankLines (c # cs) =
     (if prefix [LF, LF] (c # cs) then [] # splitBlankLines (drop 1 cs)
      else consHead c (splitBlankLines cs))"

function stripDelimited :: "char \<Rightarrow> char \<Rightarrow> string \<Rightarrow> string" where
  \<comment> \<open>\<open>replace(/\{[^}]*\}/g, ' ')\<close> for the delimiters \<open>{ }\<close>, and the same for \<open>( )\<close>\<close>
  "stripDelimited l r [] = []"
| "stripDelimited l r (c # cs) =
     (if c = l \<and> r \<in> set cs
      then CHR '' '' # stripDelimited l r (drop 1 (dropWhile (\<lambda>x. x \<noteq> r) cs))
      else c # stripDelimited l r cs)"
  by pat_completeness auto
termination
proof (relation "measure (\<lambda>(l, r, s). length s)")
  fix l r :: char and c :: char and cs :: string
  have "length (dropWhile (\<lambda>x. x \<noteq> r) cs) \<le> length cs"
    by (rule length_dropWhile_le)
  then show "((l, r, drop 1 (dropWhile (\<lambda>x. x \<noteq> r) cs)), (l, r, c # cs))
      \<in> measure (\<lambda>(l, r, s). length s)"
    by simp
qed simp_all

definition resultTokens :: "string list" where
  \<comment> \<open>the alternatives \<open>(1-0|0-1|1\/2-1\/2|\*)\<close>\<close>
  "resultTokens = [''1-0'', ''0-1'', ''1/2-1/2'', ''*'']"

definition endOfLineAt :: "string \<Rightarrow> bool" where
  \<comment> \<open>the assertion \<open>$\<close> under the \<open>m\<close> flag\<close>
  "endOfLineAt s = (case s of [] \<Rightarrow> True | c # _ \<Rightarrow> isLineTerminator c)"

definition matchSpacesEol :: "string \<Rightarrow> nat option" where
  \<comment> \<open>\<open>\s*$\<close> at the head of the string: the longest run of whitespace that ends a line\<close>
  "matchSpacesEol s = (let n = length (takeWhile isSpace s)
     in find (\<lambda>k. endOfLineAt (drop k s)) (rev [0..<Suc n]))"

fun firstSome :: "('a \<Rightarrow> 'b option) \<Rightarrow> 'a list \<Rightarrow> 'b option" where
  "firstSome f [] = None"
| "firstSome f (x # xs) = (case f x of Some y \<Rightarrow> Some y | None \<Rightarrow> firstSome f xs)"

definition matchResultAt :: "string \<Rightarrow> nat option" where
  \<comment> \<open>length of the match of \<open>\s(1-0|0-1|1\/2-1\/2|\*)\s*$\<close> at the head of the string\<close>
  "matchResultAt s = (case s of
       [] \<Rightarrow> None
     | c # cs \<Rightarrow>
         if isSpace c
         then firstSome (\<lambda>r. if prefix r cs
                then map_option (\<lambda>k. 1 + length r + k) (matchSpacesEol (drop (length r) cs))
                else None) resultTokens
         else None)"

fun stripResult :: "string \<Rightarrow> string" where
  \<comment> \<open>the expression has no \<open>g\<close> flag: only the leftmost match is replaced\<close>
  "stripResult [] = []"
| "stripResult (c # cs) =
     (case matchResultAt (c # cs) of
        Some n \<Rightarrow> CHR '' '' # drop (n - 1) cs
      | None \<Rightarrow> c # stripResult cs)"

function splitSpaces :: "string \<Rightarrow> string list" where
  \<comment> \<open>\<open>split(/\s+/)\<close>\<close>
  "splitSpaces [] = [[]]"
| "splitSpaces (c # cs) =
     (if isSpace c then [] # splitSpaces (dropWhile isSpace cs)
      else consHead c (splitSpaces cs))"
  by pat_completeness auto
termination
proof (relation "measure length")
  fix c :: char and cs :: string
  have "length (dropWhile isSpace cs) \<le> length cs"
    by (rule length_dropWhile_le)
  then show "(dropWhile isSpace cs, c # cs) \<in> measure length"
    by simp
qed simp_all

definition isMoveNumber :: "string \<Rightarrow> bool" where
  \<comment> \<open>\<open>/^\d+\.\.\.|^\d+\.$/\<close>\<close>
  "isMoveNumber t = (let rest = dropWhile isDigit t in
     takeWhile isDigit t \<noteq> [] \<and> (prefix ''...'' rest \<or> rest = ''.''))"

definition isNag :: "string \<Rightarrow> bool" where
  \<comment> \<open>\<open>/^\$\d+$/\<close>\<close>
  "isNag t = (case t of [] \<Rightarrow> False | c # ds \<Rightarrow> c = CHR ''$'' \<and> ds \<noteq> [] \<and> list_all isDigit ds)"

definition isDigitDashDigit :: "string \<Rightarrow> bool" where
  \<comment> \<open>\<open>/^\d-\d$/\<close>\<close>
  "isDigitDashDigit t = (case t of [a, b, c] \<Rightarrow> isDigit a \<and> b = CHR ''-'' \<and> isDigit c | _ \<Rightarrow> False)"

definition isGlyphRun :: "string \<Rightarrow> bool" where
  \<comment> \<open>\<open>/^[!?+#]+$/\<close>\<close>
  "isGlyphRun t = (t \<noteq> [] \<and> list_all (\<lambda>c. c \<in> set ''!?+#'') t)"

definition isClean :: "string \<Rightarrow> bool" where
  "isClean t = (t \<noteq> [] \<and> \<not> isNag t \<and> \<not> isDigitDashDigit t \<and> t \<noteq> ''*''
     \<and> t \<notin> set [''1-0'', ''0-1'', ''1/2-1/2''] \<and> \<not> isGlyphRun t)"

definition plyCount :: "string \<Rightarrow> nat" where
  "plyCount pgn =
     (let parts = splitBlankLines pgn;
          movesSection = last parts;
          s = stripDelimited CHR ''('' CHR '')'' (stripDelimited CHR ''{'' CHR ''}'' movesSection);
          s' = stripResult s;
          tokens = splitSpaces (trim s');
          sans = filter (\<lambda>t. \<not> isMoveNumber t) tokens;
          clean = filter isClean sans
      in length clean)"

definition countFullMovesFromPgn :: "string option \<Rightarrow> string" where
  "countFullMovesFromPgn pgn = (case pgn of
       None \<Rightarrow> ''N/A''
     | Some p \<Rightarrow>
         if p = [] then ''N/A''
         else let ply = plyCount p;
                  fullMoves = max 1 ((ply + 1) div 2)
              in showNat fullMoves)"




section \<open>Data model and the archive service\<close>

record PlayerRef =
  username :: "string option"
  result :: "string option"
  rating :: "int option"

record GameItem =
  url :: "string option"
  end_time :: "int option"
  start_time :: "int option"
  time_class :: "string option"
  rules :: "string option"
  rated :: "bool option"
  pgn :: "string option"
  white :: "PlayerRef option"
  black :: "PlayerRef option"

datatype Color = White | Black

datatype FetchError = HttpError nat string | RequestFailed

text \<open>
  What the code reads from its host: the two kinds of \<open>fetchJson\<close> request (the archive
  index of a player, already reduced to \<open>idx.archives || []\<close>, and one monthly archive,
  reduced to \<open>month.games || []\<close>), the builtin \<open>encodeURIComponent\<close>, and the local
  calendar fields of \<open>new Date(ms)\<close>.
\<close>

record Host =
  fetchArchives :: "string \<Rightarrow> FetchError + string list"
  fetchMonth :: "string \<Rightarrow> FetchError + GameItem list"
  encodeURIComponent :: "string \<Rightarrow> string"
  toDate :: "int \<Rightarrow> DateFields"

record LastGame =
  game :: GameItem
  meColor :: Color
  meUsername :: string

definition sideUsername :: "PlayerRef option \<Rightarrow> string option" where
  \<comment> \<open>\<open>side?.username\<close>\<close>
  "sideUsername p = (case p of None \<Rightarrow> None | Some x \<Rightarrow> username x)"

definition normalizeUsername :: "string option \<Rightarrow> string option" where
  "normalizeUsername name = map_option (\<lambda>n. toLowerCase (trim n)) name"

definition truthyNum :: "int option \<Rightarrow> bool" where
  "truthyNum x = (case x of None \<Rightarrow> False | Some n \<Rightarrow> n \<noteq> 0)"

definition orZero :: "int option \<Rightarrow> int" where
  \<comment> \<open>\<open>x || 0\<close> on an optional number\<close>
  "orZero x = (case x of None \<Rightarrow> 0 | Some n \<Rightarrow> n)"

definition indexUrl :: "Host \<Rightarrow> string \<Rightarrow> string" where
  "indexUrl h u = ''https://api.chess.com/pub/player/'' @ encodeURIComponent h u @ ''/games/archives''"

definition categoryMatches :: "string \<Rightarrow> GameItem \<Rightarrow> bool" where
  \<comment> \<open>\<open>g.time_class?.toLowerCase() === timeClass\<close>\<close>
  "categoryMatches timeClass g = (map_option toLowerCase (time_class g) = Some timeClass)"


section \<open>Game resolver\<close>

definition lastCandidates :: "string option \<Rightarrow> GameItem list \<Rightarrow> GameItem list" where
  "lastCandidates timeClass games = (case timeClass of
       None \<Rightarrow> games
     | Some tc \<Rightarrow> if tc \<noteq> [] then filter (categoryMatches tc) games else games)"

definition laterThan :: "int option \<Rightarrow> int option \<Rightarrow> bool" where
  \<comment> \<open>\<open>g.end_time && g.end_time > latest.end_time\<close>\<close>
  "laterThan g l = (case g of
       None \<Rightarrow> False
     | Some a \<Rightarrow> a \<noteq> 0 \<and> (case l of None \<Rightarrow> False | Some b \<Rightarrow> a > b))"

definition keepLater :: "GameItem \<Rightarrow> GameItem \<Rightarrow> GameItem" where
  \<comment> \<open>one iteration of the scan: the new value of \<open>latest\<close>\<close>
  "keepLater latest g =
     (if \<not> truthyNum (end_time latest) \<or> laterThan (end_time g) (end_time latest)
      then g else latest)"

definition pickLatest :: "GameItem list \<Rightarrow> GameItem option" where
  \<comment> \<open>\<open>latest\<close> starts as the last candidate; no candidate leaves it undefined\<close>
  "pickLatest candidates =
     (if candidates = [] then None
      else Some (foldl keepLater (last candidates) candidates))"

fun lastGameLoop :: "Host \<Rightarrow> string \<Rightarrow> string \<Rightarrow> string option \<Rightarrow> string list
    \<Rightarrow> FetchError + LastGame option" where
  \<comment> \<open>the loop over the archives; the list is the archives still to visit, newest first\<close>
  "lastGameLoop h user u timeClass [] = Inr None"
| "lastGameLoop h user u timeClass (a # as) =
     (case fetchMonth h a of
        Inl e \<Rightarrow> Inl e
      | Inr games \<Rightarrow>
          if games = [] then lastGameLoop h user u timeClass as
          else let candidates = lastCandidates timeClass games in
            if candidates = [] then lastGameLoop h user u timeClass as
            else (case pickLatest candidates of
                None \<Rightarrow> lastGameLoop h user u timeClass as
              | Some latest \<Rightarrow>
                  let wu = normalizeUsername (sideUsername (white latest));
                      bu = normalizeUsername (sideUsername (black latest))
                  in if wu = Some u
                     then Inr (Some \<lparr>game = latest, meColor = White, meUsername = user\<rparr>)
                     else if bu = Some u
                     then Inr (Some \<lparr>game = latest, meColor = Black, meUsername = user\<rparr>)
                     else lastGameLoop h user u timeClass as))"

definition getLastGameForUser :: "Host \<Rightarrow> string \<Rightarrow> string option
    \<Rightarrow> FetchError + LastGame option" where
  "getLastGameForUser h user timeClass =
     (let u = toLowerCase (trim user) in
      if u = [] then Inr None
      else (case fetchArchives h (indexUrl h u) of
          Inl e \<Rightarrow> Inl e
        | Inr archives \<Rightarrow>
            if archives = [] then Inr None
            else lastGameLoop h user u timeClass (rev archives)))"


section \<open>Previous-game finder\<close>

definition previousCandidates :: "string \<Rightarrow> int \<Rightarrow> GameItem list \<Rightarrow> GameItem list" where
  "previousCandidates timeClass beforeEndTime games =
     filter (\<lambda>g. categoryMatches timeClass g \<and> orZero (end_time g) < beforeEndTime) games"

definition keepLaterPrevious :: "GameItem option \<Rightarrow> GameItem \<Rightarrow> GameItem option" where
  \<comment> \<open>one iteration of the scan; \<open>latest\<close> starts undefined\<close>
  "keepLaterPrevious latest g = (case latest of
       None \<Rightarrow> Some g
     | Some l \<Rightarrow> if orZero (end_time g) > orZero (end_time l) then Some g else Some l)"

definition pickPrevious :: "GameItem list \<Rightarrow> GameItem option" where
  "pickPrevious candidates = foldl keepLaterPrevious None candidates"

fun previousGameLoop :: "Host \<Rightarrow> string \<Rightarrow> int \<Rightarrow> string list \<Rightarrow> FetchError + GameItem option" where
  "previousGameLoop h timeClass beforeEndTime [] = Inr None"
| "previousGameLoop h timeClass beforeEndTime (a # as) =
     (case fetchMonth h a of
        Inl e \<Rightarrow> Inl e
      | Inr games \<Rightarrow>
          let candidates = previousCandidates timeClass beforeEndTime games in
          if candidates = [] then previousGameLoop h timeClass beforeEndTime as
          else (case pickPrevious candidates of
              Some latest \<Rightarrow> Inr (Some latest)
            | None \<Rightarrow> previousGameLoop h timeClass beforeEndTime as))"

definition getPreviousGameForUser :: "Host \<Rightarrow> string \<Rightarrow> string \<Rightarrow> int
    \<Rightarrow> FetchError + GameItem option" where
  "getPreviousGameForUser h user timeClass beforeEndTime =
     (let u = toLowerCase (trim user) in
      if u = [] then Inr None
      else (case fetchArchives h (indexUrl h u) of
          Inl e \<Rightarrow> Inl e
        | Inr archives \<Rightarrow>
            if archives = [] then Inr None
            else previousGameLoop h timeClass beforeEndTime (rev archives)))"


section \<open>Template variable builder\<close>

definition emptyPlayer :: PlayerRef where
  \<comment> \<open>the \<open>{}\<close> of \<open>game.white || {}\<close>\<close>
  "emptyPlayer = \<lparr>username = None, result = None, rating = None\<rparr>"

definition sideOrEmpty :: "PlayerRef option \<Rightarrow> PlayerRef" where
  "sideOrEmpty p = (case p of None \<Rightarrow> emptyPlayer | Some x \<Rightarrow> x)"

definition profileUrl :: "Host \<Rightarrow> string option \<Rightarrow> string" where
  "profileUrl h name = (let u = trim (orEmpty name) in
     if u = [] then [] else ''https://www.chess.com/member/'' @ encodeURIComponent h u)"

definition labelGameType :: "string \<Rightarrow> string" where
  "labelGameType tc = (let t = toLowerCase tc in
     if t = ''bullet'' then ''Bullet'' else if t = ''blitz'' then ''Blitz''
     else if t = ''rapid'' then ''Rapid'' else if t = ''daily'' then ''Daily'' else [])"

definition formatDate :: "Host \<Rightarrow> int option \<Rightarrow> string \<Rightarrow> string" where
  "formatDate h ts pattern = (case ts of
       None \<Rightarrow> []
     | Some t \<Rightarrow> if t = 0 then []
         else formatWithPattern (toDate h (t * 1000)) (if pattern = [] then ''yyyy-MM-dd'' else pattern))"

definition formatDateOnly :: "Host \<Rightarrow> int option \<Rightarrow> string \<Rightarrow> string" where
  "formatDateOnly h ts datePattern =
     formatDate h ts (if datePattern = [] then ''yyyy-MM-dd'' else datePattern)"

definition formatTimeOnly :: "Host \<Rightarrow> int option \<Rightarrow> string \<Rightarrow> string" where
  "formatTimeOnly h ts timePattern = (case ts of
       None \<Rightarrow> []
     | Some t \<Rightarrow> if t = 0 then []
         else formatWithPattern (toDate h (t * 1000)) (if timePattern = [] then ''hh:mm'' else timePattern))"

definition formatTimestamp :: "Host \<Rightarrow> int option \<Rightarrow> string \<Rightarrow> string \<Rightarrow> string" where
  "formatTimestamp h ts datePattern timePattern =
     (let d = formatDateOnly h ts datePattern;
          t = formatTimeOnly h ts timePattern
      in if d \<noteq> [] \<and> t \<noteq> [] then d @ '' '' @ t
         else if d \<noteq> [] then d else t)"

definition formatDuration :: "int option \<Rightarrow> int option \<Rightarrow> string \<Rightarrow> string" where
  "formatDuration start end timeClass =
     (if \<not> truthyNum start \<or> \<not> truthyNum end \<or> orZero end < orZero start then []
      else let ms = nat ((orZero end - orZero start) * 1000) in
        if toLowerCase timeClass = ''daily''
        then let days = (ms + 43200000) div 86400000
             in if days = 1 then ''1 day'' else showNat days @ '' days''
        else let totalMinutes = ms div 60000;
                 hours = totalMinutes div 60;
                 minutes = totalMinutes mod 60
             in zeroPad hours 2 @ '':'' @ zeroPad minutes 2)"

definition ratingText :: "int option \<Rightarrow> string" where
  \<comment> \<open>\<open>p.rating != null ? String(p.rating) : ''\<close>\<close>
  "ratingText r = (case r of None \<Rightarrow> [] | Some n \<Rightarrow> showInt n)"

definition winnerSide :: "GameItem \<Rightarrow> Color option" where
  "winnerSide g =
     (if outcomeCategory (result (sideOrEmpty (white g))) = Win then Some White
      else if outcomeCategory (result (sideOrEmpty (black g))) = Win then Some Black
      else None)"

definition loserSide :: "GameItem \<Rightarrow> Color option" where
  "loserSide g =
     (if outcomeCategory (result (sideOrEmpty (white g))) = Loss then Some White
      else if outcomeCategory (result (sideOrEmpty (black g))) = Loss then Some Black
      else None)"

definition sideOf :: "GameItem \<Rightarrow> Color \<Rightarrow> PlayerRef" where
  "sideOf g c = (if c = White then sideOrEmpty (white g) else sideOrEmpty (black g))"

definition winner :: "GameItem \<Rightarrow> PlayerRef option" where
  "winner g = map_option (sideOf g) (winnerSide g)"

definition loser :: "GameItem \<Rightarrow> PlayerRef option" where
  "loser g = map_option (sideOf g) (loserSide g)"

definition lookupName :: "GameItem \<Rightarrow> Color \<Rightarrow> string \<Rightarrow> string" where
  "lookupName g me lookupUsername =
     (if lookupUsername \<noteq> [] \<and> trim lookupUsername \<noteq> [] then trim lookupUsername
      else orEmpty (username (sideOf g me)))"

definition lookupSide :: "GameItem \<Rightarrow> Color \<Rightarrow> string \<Rightarrow> Color" where
  "lookupSide g me lookupUsername =
     (let lookupNorm = normalizeUsername (Some (lookupName g me lookupUsername));
          whiteNorm = normalizeUsername (username (sideOrEmpty (white g)));
          blackNorm = normalizeUsername (username (sideOrEmpty (black g)))
      in if lookupNorm = whiteNorm then White else if lookupNorm = blackNorm then Black else me)"

definition otherColor :: "Color \<Rightarrow> Color" where
  "otherColor c = (if c = White then Black else White)"

definition formatDelta :: "int \<Rightarrow> string" where
  "formatDelta delta = (if delta > 0 then ''+'' @ showInt delta else showInt delta)"

definition prevLookup :: "string option \<Rightarrow> GameItem \<Rightarrow> PlayerRef" where
  \<comment> \<open>the side of the previous game whose rating is compared\<close>
  "prevLookup lookupNorm prev =
     (let prevWhite = sideOrEmpty (white prev);
          prevBlack = sideOrEmpty (black prev)
      in if normalizeUsername (username prevWhite) = lookupNorm then prevWhite else prevBlack)"

definition ratingChange :: "Host \<Rightarrow> GameItem \<Rightarrow> Color \<Rightarrow> string \<Rightarrow> string" where
  \<comment> \<open>the \<open>try\<close> block; a failed fetch is the exception the \<open>catch\<close> swallows\<close>
  "ratingChange h g me lookupUsername =
     (let timeClass = orEmpty (time_class g);
          name = lookupName g me lookupUsername;
          lookupNorm = normalizeUsername (Some name);
          lookupPlayer = sideOf g (lookupSide g me lookupUsername)
      in if truthyNum (end_time g) \<and> timeClass \<noteq> [] \<and> name \<noteq> []
         then (case getPreviousGameForUser h name timeClass (orZero (end_time g)) of
             Inl e \<Rightarrow> []
           | Inr None \<Rightarrow> []
           | Inr (Some prev) \<Rightarrow>
               (case rating lookupPlayer of
                  None \<Rightarrow> []
                | Some cur \<Rightarrow> (case rating (prevLookup lookupNorm prev) of
                    None \<Rightarrow> []
                  | Some old \<Rightarrow> formatDelta (cur - old))))
         else [])"

definition buildTemplateVars :: "Host \<Rightarrow> GameItem \<Rightarrow> Color \<Rightarrow> string \<Rightarrow> string \<Rightarrow> string
    \<Rightarrow> (string \<times> string) list" where
  "buildTemplateVars h g me lookupUsername dateFormat timeFormat =
     (let w = sideOrEmpty (white g);
          b = sideOrEmpty (black g);
          timeClass = orEmpty (time_class g);
          start = start_time g;
          end = end_time g;
          whiteCat = outcomeCategory (result w);
          blackCat = outcomeCategory (result b);
          win = winner g;
          los = loser g;
          name = lookupName g me lookupUsername;
          side = lookupSide g me lookupUsername;
          lookupPlayer = sideOf g side;
          otherPlayer = sideOf g (otherColor side);
          focusName = (if orEmpty (username lookupPlayer) \<noteq> [] then orEmpty (username lookupPlayer) else name)
      in [(''rated'', if rated g = Some True then ''Rated'' else ''Unrated''),
          (''rules'', orEmpty (rules g)),
          (''start_timestamp'', formatTimestamp h start dateFormat timeFormat),
          (''end_timestamp'', formatTimestamp h end dateFormat timeFormat),
          (''start_date'', formatDateOnly h start dateFormat),
          (''end_date'', formatDateOnly h end dateFormat),
          (''start_time'', formatTimeOnly h start timeFormat),
          (''end_time'', formatTimeOnly h end timeFormat),
          (''moves'', countFullMovesFromPgn (pgn g)),
          (''time'', formatDuration start end timeClass),
          (''url'', orEmpty (url g)),
          (''game_type'', labelGameType timeClass),
          (''white'', orEmpty (username w)),
          (''white_url'', profileUrl h (username w)),
          (''white_rating'', ratingText (rating w)),
          (''white_result'', pastTenseLabel whiteCat),
          (''black'', orEmpty (username b)),
          (''black_url'', profileUrl h (username b)),
          (''black_rating'', ratingText (rating b)),
          (''black_result'', pastTenseLabel blackCat),
          (''winner'', orEmpty (sideUsername win)),
          (''winner_url'', if orEmpty (sideUsername win) \<noteq> [] then profileUrl h (sideUsername win) else []),
          (''winner_rating'', ratingText (case win of None \<Rightarrow> None | Some p \<Rightarrow> rating p)),
          (''loser'', orEmpty (sideUsername los)),
          (''loser_url'', if orEmpty (sideUsername los) \<noteq> [] then profileUrl h (sideUsername los) else []),
          (''loser_rating'', ratingText (case los of None \<Rightarrow> None | Some p \<Rightarrow> rating p)),
          (''focus'', focusName),
          (''focus_url'', profileUrl h (Some focusName)),
          (''focus_rating'', ratingText (rating lookupPlayer)),
          (''focus_result'', pastTenseLabel (outcomeCategory (result lookupPlayer))),
          (''foe'', orEmpty (username otherPlayer)),
          (''foe_url'', profileUrl h (username otherPlayer)),
          (''foe_rating'', ratingText (rating otherPlayer)),
          (''foe_result'', pastTenseLabel (outcomeCategory (result otherPlayer))),
          (''rating_change'', ratingChange h g me lookupUsername)])"


section \<open>Template renderer\<close>
























section \<open>Sample data\<close>

text \<open>Concrete games and a concrete host, for the examples.\<close>

definition sampleGame :: "nat \<Rightarrow> int \<Rightarrow> int \<Rightarrow> GameItem" where
  \<comment> \<open>a blitz game that Bob (white) won against Ann: its number, end time and Bob's rating\<close>
  "sampleGame n t r =
     \<lparr>url = Some (''https://www.chess.com/game/live/'' @ showNat n),
      end_time = Some t, start_time = None, time_class = Some ''blitz'',
      rules = Some ''chess'', rated = Some True, pgn = None,
      white = Some \<lparr>username = Some ''Bob'', result = Some ''win'', rating = Some r\<rparr>,
      black = Some \<lparr>username = Some ''Ann'', result = Some ''resigned'', rating = Some 1400\<rparr>\<rparr>"

definition sampleHost :: "GameItem list \<Rightarrow> Host" where
  \<comment> \<open>Bob has one monthly archive, holding the given games; every other request fails\<close>
  "sampleHost games =
     \<lparr>fetchArchives = (\<lambda>u. if u = ''https://api.chess.com/pub/player/bob/games/archives''
        then Inr [''2024/01''] else Inl (HttpError 404 u)),
      fetchMonth = (\<lambda>u. if u = ''2024/01'' then Inr games else Inl (HttpError 404 u)),
      encodeURIComponent = (\<lambda>s. s),  \<comment> \<open>right on letters and digits, all the examples encode\<close>
      toDate = (\<lambda>ms. \<lparr>getFullYear = 2024, getMonth = 0, getDate = 1, getHours = 0,
        getMinutes = 0, getSeconds = 0\<rparr>)\<rparr>"




definition bothWin :: GameItem where
  "bothWin = (sampleGame 1 100 1500)\<lparr>black :=
     Some \<lparr>username = Some ''Ann'', result = Some ''win'', rating = Some 1400\<rparr>\<rparr>"

definition bothLose :: GameItem where
  "bothLose = (sampleGame 1 100 1500)
     \<lparr>white := Some \<lparr>username = Some ''Bob'', result = Some ''timeout'', rating = Some 1500\<rparr>\<rparr>"


section \<open>Properties of the outcome classifier\<close>

lemma lower_codes:
  "map toLowerCase (''win'' # drawCodes @ lossCodes) = ''win'' # drawCodes @ lossCodes"
  by code_simp

lemma lower_empty: "toLowerCase [] = []"
  by (simp add: toLowerCase_def)

text \<open>
  C7. The outcome classifier is total. An absent or empty code is Unknown; a code equal to
  \<open>win\<close> up to letter case is Win; a code equal up to letter case to one of the listed draw
  codes is Draw; to one of the listed loss codes, Loss; every other code is Unknown.
\<close>

theorem outcomeCategory_classifies:
  "outcomeCategory None = Unknown \<and> outcomeCategory (Some []) = Unknown \<and>
   outcomeCategory (Some r) =
     (if equalIgnoringCase r ''win'' then Win
      else if list_ex (equalIgnoringCase r) drawCodes then Draw
      else if list_ex (equalIgnoringCase r) lossCodes then Loss
      else Unknown)"
  using lower_codes
  by (simp add: outcomeCategory_def orEmpty_def equalIgnoringCase_def drawCodes_def
      lossCodes_def lower_empty Let_def)

theorem outcomeCategory_classifies_witness:
  "outcomeCategory (Some ''TimeVsInsufficient'') = Draw \<and> outcomeCategory (Some ''Win'') = Win
   \<and> outcomeCategory (Some ''RESIGNED'') = Loss \<and> outcomeCategory (Some ''won'') = Unknown"
proof -
  have a: "equalIgnoringCase ''Win'' ''win''" by code_simp
  have b: "\<not> equalIgnoringCase ''TimeVsInsufficient'' ''win''
      \<and> list_ex (equalIgnoringCase ''TimeVsInsufficient'') drawCodes" by code_simp
  have c: "\<not> equalIgnoringCase ''RESIGNED'' ''win''
      \<and> \<not> list_ex (equalIgnoringCase ''RESIGNED'') drawCodes
      \<and> list_ex (equalIgnoringCase ''RESIGNED'') lossCodes" by code_simp
  have d: "\<not> equalIgnoringCase ''won'' ''win''
      \<and> \<not> list_ex (equalIgnoringCase ''won'') drawCodes
      \<and> \<not> list_ex (equalIgnoringCase ''won'') lossCodes" by code_simp
  show ?thesis
    using a b c d outcomeCategory_classifies [of "''Win''"]
      outcomeCategory_classifies [of "''TimeVsInsufficient''"]
      outcomeCategory_classifies [of "''RESIGNED''"]
      outcomeCategory_classifies [of "''won''"]
    by simp
qed


section \<open>Properties of the notation move counter\<close>




section \<open>Properties of the pattern formatter\<close>














section \<open>Properties of the template variable builder\<close>

lemma profileUrl_empty: "orEmpty name = [] \<Longrightarrow> profileUrl h name = []"
  by (simp add: profileUrl_def trim_def)

lemma vars_white:
  "map_of (buildTemplateVars h g me lu df tf) ''white'' = Some (orEmpty (username (sideOrEmpty (white g))))"
  "map_of (buildTemplateVars h g me lu df tf) ''white_url'' = Some (profileUrl h (username (sideOrEmpty (white g))))"
  "map_of (buildTemplateVars h g me lu df tf) ''white_rating'' = Some (ratingText (rating (sideOrEmpty (white g))))"
  by (simp_all add: buildTemplateVars_def Let_def)

lemma vars_black:
  "map_of (buildTemplateVars h g me lu df tf) ''black'' = Some (orEmpty (username (sideOrEmpty (black g))))"
  "map_of (buildTemplateVars h g me lu df tf) ''black_url'' = Some (profileUrl h (username (sideOrEmpty (black g))))"
  "map_of (buildTemplateVars h g me lu df tf) ''black_rating'' = Some (ratingText (rating (sideOrEmpty (black g))))"
  by (simp_all add: buildTemplateVars_def Let_def)

lemma vars_winner:
  "map_of (buildTemplateVars h g me lu df tf) ''winner'' = Some (orEmpty (sideUsername (winner g)))"
  "map_of (buildTemplateVars h g me lu df tf) ''winner_url'' = Some (profileUrl h (sideUsername (winner g)))"
  "map_of (buildTemplateVars h g me lu df tf) ''winner_rating'' =
     Some (ratingText (case winner g of None \<Rightarrow> None | Some p \<Rightarrow> rating p))"
  by (simp_all add: buildTemplateVars_def Let_def profileUrl_empty)

lemma vars_loser:
  "map_of (buildTemplateVars h g me lu df tf) ''loser'' = Some (orEmpty (sideUsername (loser g)))"
  "map_of (buildTemplateVars h g me lu df tf) ''loser_url'' = Some (profileUrl h (sideUsername (loser g)))"
  "map_of (buildTemplateVars h g me lu df tf) ''loser_rating'' =
     Some (ratingText (case loser g of None \<Rightarrow> None | Some p \<Rightarrow> rating p))"
  by (simp_all add: buildTemplateVars_def Let_def profileUrl_empty)


lemma sideUsername_Some: "sideUsername (Some p) = username p"
  by (simp add: sideUsername_def)


text \<open>
  C10. White is checked first. When white's result classifies as Win, the winner is the
  white side and the \<open>winner\<close>, \<open>winner_url\<close> and \<open>winner_rating\<close> variables equal the
  \<open>white\<close> ones, whatever black's result is (so also when both classify as Win); the same
  holds for Loss and the \<open>loser\<close> variables. The black side is the winner (the loser) exactly
  when white's result does not classify as Win (Loss) and black's does.
\<close>

theorem winner_loser_white_first:
  "(outcomeCategory (result (sideOrEmpty (white g))) = Win \<longrightarrow>
      winner g = Some (sideOrEmpty (white g))
      \<and> map_of (buildTemplateVars h g me lu df tf) ''winner'' = map_of (buildTemplateVars h g me lu df tf) ''white''
      \<and> map_of (buildTemplateVars h g me lu df tf) ''winner_url'' = map_of (buildTemplateVars h g me lu df tf) ''white_url''
      \<and> map_of (buildTemplateVars h g me lu df tf) ''winner_rating'' = map_of (buildTemplateVars h g me lu df tf) ''white_rating'')
   \<and> (outcomeCategory (result (sideOrEmpty (white g))) = Loss \<longrightarrow>
      loser g = Some (sideOrEmpty (white g))
      \<and> map_of (buildTemplateVars h g me lu df tf) ''loser'' = map_of (buildTemplateVars h g me lu df tf) ''white''
      \<and> map_of (buildTemplateVars h g me lu df tf) ''loser_url'' = map_of (buildTemplateVars h g me lu df tf) ''white_url''
      \<and> map_of (buildTemplateVars h g me lu df tf) ''loser_rating'' = map_of (buildTemplateVars h g me lu df tf) ''white_rating'')
   \<and> (winner g = Some (sideOrEmpty (black g)) \<and> winnerSide g = Some Black
        \<longleftrightarrow> outcomeCategory (result (sideOrEmpty (white g))) \<noteq> Win
            \<and> outcomeCategory (result (sideOrEmpty (black g))) = Win)
   \<and> (loser g = Some (sideOrEmpty (black g)) \<and> loserSide g = Some Black
        \<longleftrightarrow> outcomeCategory (result (sideOrEmpty (white g))) \<noteq> Loss
            \<and> outcomeCategory (result (sideOrEmpty (black g))) = Loss)"
proof -
  have w: "outcomeCategory (result (sideOrEmpty (white g))) = Win \<Longrightarrow>
      winner g = Some (sideOrEmpty (white g))"
    by (simp add: winner_def winnerSide_def sideOf_def)
  have l: "outcomeCategory (result (sideOrEmpty (white g))) = Loss \<Longrightarrow>
      loser g = Some (sideOrEmpty (white g))"
    by (simp add: loser_def loserSide_def sideOf_def)
  have wb: "winner g = Some (sideOrEmpty (black g)) \<and> winnerSide g = Some Black
        \<longleftrightarrow> outcomeCategory (result (sideOrEmpty (white g))) \<noteq> Win
            \<and> outcomeCategory (result (sideOrEmpty (black g))) = Win"
    by (auto simp: winner_def winnerSide_def sideOf_def split: if_splits)
  have lb: "loser g = Some (sideOrEmpty (black g)) \<and> loserSide g = Some Black
        \<longleftrightarrow> outcomeCategory (result (sideOrEmpty (white g))) \<noteq> Loss
            \<and> outcomeCategory (result (sideOrEmpty (black g))) = Loss"
    by (auto simp: loser_def loserSide_def sideOf_def split: if_splits)
  show ?thesis
    using w l wb lb
    by (simp add: vars_white vars_winner vars_loser sideUsername_Some)
qed

theorem winner_loser_white_first_witness:
  "map_of (buildTemplateVars (sampleHost []) bothWin Black [] [] []) ''winner'' = Some ''Bob''
   \<and> map_of (buildTemplateVars (sampleHost []) bothWin Black [] [] []) ''winner_rating'' = Some ''1500''
   \<and> map_of (buildTemplateVars (sampleHost []) bothLose Black [] [] []) ''loser'' = Some ''Bob''
   \<and> map_of (buildTemplateVars (sampleHost []) bothLose Black [] [] []) ''loser_rating'' = Some ''1500''"
proof -
  have a: "outcomeCategory (result (sideOrEmpty (white bothWin))) = Win"
    by code_simp
  have b: "outcomeCategory (result (sideOrEmpty (white bothLose))) = Loss"
    by code_simp
  have c: "orEmpty (username (sideOrEmpty (white bothWin))) = ''Bob''
      \<and> ratingText (rating (sideOrEmpty (white bothWin))) = ''1500''
      \<and> orEmpty (username (sideOrEmpty (white bothLose))) = ''Bob''
      \<and> ratingText (rating (sideOrEmpty (white bothLose))) = ''1500''"
    by code_simp
  show ?thesis
    using a b c
      winner_loser_white_first [of bothWin "sampleHost []" Black "[]" "[]" "[]"]
      winner_loser_white_first [of bothLose "sampleHost []" Black "[]" "[]" "[]"]
    by (simp add: vars_white)
qed







section \<open>Properties of the category filter\<close>





section \<open>Properties of the previous-game finder\<close>




lemma previousGameLoop_skip:
  assumes "\<forall>b\<in>set newer. \<exists>gs. fetchMonth h b = Inr gs \<and> previousCandidates tc cutoff gs = []"
  shows "previousGameLoop h tc cutoff (newer @ rest) = previousGameLoop h tc cutoff rest"
  using assms by (induction newer) auto

lemma previousGameLoop_none:
  assumes "\<forall>b\<in>set as. \<exists>gs. fetchMonth h b = Inr gs \<and> previousCandidates tc cutoff gs = []"
  shows "previousGameLoop h tc cutoff as = Inr None"
  using previousGameLoop_skip [OF assms, of "[]"] by simp




section \<open>Properties of the game resolver\<close>

lemma keepLater_nonneg:
  assumes "0 \<le> orZero (end_time l)" and "0 \<le> orZero (end_time g)"
  shows "keepLater l g =
    (if orZero (end_time l) = 0 \<or> orZero (end_time l) < orZero (end_time g) then g else l)"
  using assms
  by (cases "end_time l"; cases "end_time g")
     (auto simp: keepLater_def truthyNum_def laterThan_def orZero_def)

lemma keepLater_stays:
  assumes "0 < orZero (end_time l)"
    and "\<forall>x\<in>set xs. 0 \<le> orZero (end_time x) \<and> orZero (end_time x) \<le> orZero (end_time l)"
  shows "foldl keepLater l xs = l"
  using assms by (induction xs) (simp_all add: keepLater_nonneg)

lemma keepLater_all_zero:
  assumes "orZero (end_time l) = 0"
    and "\<forall>x\<in>set xs. orZero (end_time x) = 0"
  shows "foldl keepLater l xs = (if xs = [] then l else last xs)"
  using assms by (induction xs arbitrary: l) (simp_all add: keepLater_nonneg)

lemma keepLater_first_max:
  assumes "0 \<le> orZero (end_time l)" and "orZero (end_time l) < orZero (end_time g)"
    and "\<forall>x\<in>set pre. 0 \<le> orZero (end_time x) \<and> orZero (end_time x) < orZero (end_time g)"
    and "\<forall>x\<in>set post. 0 \<le> orZero (end_time x) \<and> orZero (end_time x) \<le> orZero (end_time g)"
  shows "foldl keepLater l (pre @ g # post) = g"
  using assms
proof (induction pre arbitrary: l)
  case Nil
  then have "keepLater l g = g"
    by (simp add: keepLater_nonneg)
  moreover have "foldl keepLater g post = g"
    using Nil by (intro keepLater_stays) auto
  ultimately show ?case
    by simp
next
  case (Cons x pre)
  have "0 \<le> orZero (end_time (keepLater l x))
      \<and> orZero (end_time (keepLater l x)) < orZero (end_time g)"
    using Cons.prems by (simp add: keepLater_nonneg)
  with Cons show ?case
    by simp
qed

lemma first_max_exists:
  fixes f :: "'a \<Rightarrow> int"
  assumes "xs \<noteq> []"
  shows "\<exists>pre g post. xs = pre @ g # post \<and> (\<forall>x\<in>set pre. f x < f g) \<and> (\<forall>x\<in>set post. f x \<le> f g)"
  using assms
proof (induction xs)
  case Nil
  then show ?case by simp
next
  case (Cons x xs)
  show ?case
  proof (cases "xs = []")
    case True
    then have "x # xs = [] @ x # [] \<and> (\<forall>y\<in>set []. f y < f x) \<and> (\<forall>y\<in>set []. f y \<le> f x)"
      by simp
    then show ?thesis by blast
  next
    case False
    with Cons.IH obtain pre g post where
      d: "xs = pre @ g # post" "\<forall>y\<in>set pre. f y < f g" "\<forall>y\<in>set post. f y \<le> f g"
      by blast
    show ?thesis
    proof (cases "f x < f g")
      case True
      then have "x # xs = (x # pre) @ g # post \<and> (\<forall>y\<in>set (x # pre). f y < f g)
          \<and> (\<forall>y\<in>set post. f y \<le> f g)"
        using d by simp
      then show ?thesis by blast
    next
      case False
      then have "x # xs = [] @ x # xs \<and> (\<forall>y\<in>set []. f y < f x) \<and> (\<forall>y\<in>set xs. f y \<le> f x)"
        using d by fastforce
      then show ?thesis by blast
    qed
  qed
qed

text \<open>
  The claim C1 has the earliest candidate win a tie for the greatest end time. The scan
  starts from the last candidate, not from the first: of two games that both ended at 100
  the resolver returns the second.
\<close>

theorem pickLatest_tie_keeps_last:
  "getLastGameForUser (sampleHost [sampleGame 1 100 1480, sampleGame 2 100 1488]) ''bob'' None
     = Inr (Some \<lparr>game = sampleGame 2 100 1488, meColor = White, meUsername = ''bob''\<rparr>)
   \<and> lastCandidates None [sampleGame 1 100 1480, sampleGame 2 100 1488]
     = [sampleGame 1 100 1480, sampleGame 2 100 1488]
   \<and> pickLatest [sampleGame 1 100 1480, sampleGame 2 100 1488] = Some (sampleGame 2 100 1488)
   \<and> end_time (sampleGame 1 100 1480) = end_time (sampleGame 2 100 1488)
   \<and> sampleGame 1 100 1480 \<noteq> sampleGame 2 100 1488"
  by code_simp

text \<open>
  C1, amended. For a non-empty candidate list with no negative end time (an absent end
  time counting as 0), the scan selects a candidate of the list whose end time is the
  greatest. It starts from the last candidate and replaces the running choice only by a
  strictly later game (or by any game while the running choice has no end time): when the
  last candidate attains the greatest end time it is the one selected, otherwise the
  earliest candidate that attains it is selected.
\<close>

theorem pickLatest_running_max:
  assumes "candidates \<noteq> []"
    and "\<forall>c\<in>set candidates. 0 \<le> orZero (end_time c)"
  shows "(\<exists>g. pickLatest candidates = Some g \<and> g \<in> set candidates
            \<and> (\<forall>c\<in>set candidates. orZero (end_time c) \<le> orZero (end_time g)))
    \<and> ((\<forall>c\<in>set candidates. orZero (end_time c) \<le> orZero (end_time (last candidates)))
          \<longrightarrow> pickLatest candidates = Some (last candidates))
    \<and> (candidates = pre @ g # post
          \<and> (\<forall>x\<in>set pre. orZero (end_time x) < orZero (end_time g))
          \<and> (\<forall>x\<in>set post. orZero (end_time x) \<le> orZero (end_time g))
          \<and> orZero (end_time (last candidates)) < orZero (end_time g)
          \<longrightarrow> pickLatest candidates = Some g)"
proof -
  let ?e = "\<lambda>c. orZero (end_time c)"
  have lastin: "last candidates \<in> set candidates"
    using assms(1) by simp
  have i: "pickLatest candidates = Some (last candidates)"
    if m: "\<forall>c\<in>set candidates. ?e c \<le> ?e (last candidates)"
  proof (cases "?e (last candidates) = 0")
    case True
    then have "\<forall>c\<in>set candidates. ?e c = 0"
      using m assms(2) by (metis order_antisym)
    then show ?thesis
      using True assms(1) keepLater_all_zero [of "last candidates" candidates]
      by (simp add: pickLatest_def)
  next
    case False
    then have "0 < ?e (last candidates)"
      using assms(2) lastin by (metis order_le_less)
    then show ?thesis
      using m assms keepLater_stays [of "last candidates" candidates]
      by (simp add: pickLatest_def)
  qed
  have ii: "pickLatest candidates = Some g"
    if "candidates = pre @ g # post"
      "\<forall>x\<in>set pre. ?e x < ?e g" "\<forall>x\<in>set post. ?e x \<le> ?e g"
      "?e (last candidates) < ?e g" for pre g post
  proof -
    have "foldl keepLater (last candidates) (pre @ g # post) = g"
      using that assms(2) lastin by (intro keepLater_first_max) auto
    then show ?thesis
      using that(1) assms(1) by (simp add: pickLatest_def)
  qed
  have iii: "\<exists>g. pickLatest candidates = Some g \<and> g \<in> set candidates
            \<and> (\<forall>c\<in>set candidates. ?e c \<le> ?e g)"
  proof (cases "\<forall>c\<in>set candidates. ?e c \<le> ?e (last candidates)")
    case True
    then show ?thesis
      using i lastin by blast
  next
    case False
    obtain pre' g' post' where d: "candidates = pre' @ g' # post'"
      "\<forall>x\<in>set pre'. ?e x < ?e g'" "\<forall>x\<in>set post'. ?e x \<le> ?e g'"
      using first_max_exists [OF assms(1), of ?e] by blast
    then have mx: "\<forall>c\<in>set candidates. ?e c \<le> ?e g'"
      by auto
    from False obtain c where "c \<in> set candidates" "?e (last candidates) < ?e c"
      by (meson not_le)
    then have "?e (last candidates) < ?e g'"
      using mx by (meson order_less_le_trans)
    then have "pickLatest candidates = Some g'"
      using ii d by blast
    moreover have "g' \<in> set candidates"
      using d(1) by simp
    ultimately show ?thesis
      using mx by blast
  qed
  show ?thesis
    using i ii iii by blast
qed

theorem pickLatest_running_max_witness:
  "pickLatest [sampleGame 1 100 1480, sampleGame 2 300 1488, sampleGame 3 300 1500, sampleGame 4 200 1490]
     = Some (sampleGame 2 300 1488)
   \<and> pickLatest [sampleGame 1 100 1480, sampleGame 2 100 1488] = Some (sampleGame 2 100 1488)"
proof -
  let ?cs = "[sampleGame 1 100 1480, sampleGame 2 300 1488, sampleGame 3 300 1500, sampleGame 4 200 1490]"
  let ?ds = "[sampleGame 1 100 1480, sampleGame 2 100 1488]"
  have e: "orZero (end_time (sampleGame n t r)) = t" for n t r
    by (simp add: sampleGame_def orZero_def)
  have n1: "?cs \<noteq> [] \<and> (\<forall>c\<in>set ?cs. 0 \<le> orZero (end_time c))"
    by (simp add: e)
  have d1: "?cs = [sampleGame 1 100 1480] @ sampleGame 2 300 1488 # [sampleGame 3 300 1500, sampleGame 4 200 1490]
      \<and> (\<forall>x\<in>set [sampleGame 1 100 1480]. orZero (end_time x) < orZero (end_time (sampleGame 2 300 1488)))
      \<and> (\<forall>x\<in>set [sampleGame 3 300 1500, sampleGame 4 200 1490].
            orZero (end_time x) \<le> orZero (end_time (sampleGame 2 300 1488)))
      \<and> orZero (end_time (last ?cs)) < orZero (end_time (sampleGame 2 300 1488))"
    by (simp add: e)
  have a: "pickLatest ?cs = Some (sampleGame 2 300 1488)"
    using pickLatest_running_max [of ?cs "[sampleGame 1 100 1480]" "sampleGame 2 300 1488"
        "[sampleGame 3 300 1500, sampleGame 4 200 1490]"] n1 d1
    by blast
  have n2: "?ds \<noteq> [] \<and> (\<forall>c\<in>set ?ds. 0 \<le> orZero (end_time c))"
    by (simp add: e)
  have d2: "\<forall>c\<in>set ?ds. orZero (end_time c) \<le> orZero (end_time (last ?ds))"
    by (simp add: e)
  have b: "pickLatest ?ds = Some (last ?ds)"
    using pickLatest_running_max [of ?ds "[]" "sampleGame 1 100 1480" "[]"] n2 d2
    by blast
  show ?thesis
    using a b by simp
qed


section \<open>Properties of the template renderer\<close>

subsection \<open>Matching one handlebar\<close>














subsection \<open>One replacement over a template in pieces\<close>










subsection \<open>All replacements\<close>




























end
